theory Spec2Isabelle
  imports Complex_Main "HOL-Library.AList"
begin

section \<open>Go strings\<close>

text \<open>
  Go strings are byte sequences; they are modelled as \<open>string\<close> (a list of 8-bit
  characters). The functions below are the ones of package \<open>strings\<close> that the
  program calls. \<open>TrimSpace\<close> removes the six ASCII white-space bytes of Go's
  \<open>asciiSpace\<close> table; the multi-byte Unicode spaces that Go also strips are not
  represented.
\<close>

definition isSpace :: "char \<Rightarrow> bool" where
  "isSpace c = (c = CHR 0x09 \<or> c = CHR 0x0A \<or> c = CHR 0x0B \<or> c = CHR 0x0C
                \<or> c = CHR 0x0D \<or> c = CHR 0x20)"

definition TrimSpace :: "string \<Rightarrow> string" where
  "TrimSpace s = rev (dropWhile isSpace (rev (dropWhile isSpace s)))"

definition HasPrefix :: "string \<Rightarrow> string \<Rightarrow> bool" where
  "HasPrefix s p = (take (length p) s = p)"

definition TrimPrefix :: "string \<Rightarrow> string \<Rightarrow> string" where
  "TrimPrefix s p = (if HasPrefix s p then drop (length p) s else s)"

text \<open>\<open>SplitLines s\<close> is \<open>strings.Split(s, "\n")\<close>: the empty string gives one empty
  piece, and n separators give n + 1 pieces.\<close>

fun SplitLines :: "string \<Rightarrow> string list" where
  "SplitLines [] = [[]]"
| "SplitLines (c # cs) =
     (if c = CHR 0x0A then [] # SplitLines cs
      else (case SplitLines cs of
              [] \<Rightarrow> [[c]]
            | l # ls \<Rightarrow> (c # l) # ls))"

text \<open>\<open>Contains s sub\<close> is \<open>strings.Contains\<close>.\<close>

fun Contains :: "string \<Rightarrow> string \<Rightarrow> bool" where
  "Contains [] sub = (sub = [])"
| "Contains (c # cs) sub = (HasPrefix (c # cs) sub \<or> Contains cs sub)"

section \<open>Data model (config.go, daemon.go, the response helpers)\<close>

record OAuthConfig =
  AuthURL :: string
  TokenURL :: string
  RegistrationURL :: string
  ClientID :: string
  ClientSecret :: string
  Scopes :: "string list"
  OAuthScope :: string
  Resource :: string

text \<open>Modelled from the spec: the declaration of \<open>LocalConfig\<close> is not among the
  sources; the spec gives it a command, its arguments and extra environment.\<close>

record LocalConfig =
  Command :: string
  Args :: "string list"
  Env :: "string \<rightharpoonup> string"

text \<open>Modelled from the spec: the fields \<open>SessionBased\<close> and \<open>Local\<close> are missing
  from the declaration of \<open>ServerConfig\<close> in config.go; mcp.go, daemon.go and the tests
  read them, and the spec gives a server a \<open>sessionBased\<close> flag and an optional
  \<open>local\<close> part.\<close>

record ServerConfig =
  URL :: string
  Headers :: "(string \<times> string) list"
  OAuth :: "OAuthConfig option"
  Scope :: string
  SessionBased :: bool
  Local :: "LocalConfig option"

text \<open>\<open>Config.Servers\<close> is a Go map. It is ranged over by the daemon, so it is kept as
  an association list, read with \<open>map_of\<close>; the list order stands for the order in which
  Go happens to enumerate the map.\<close>

record Config =
  Servers :: "(string \<times> ServerConfig) list"

record TokenData =
  AccessToken :: string
  RefreshToken :: string
  ExpiresIn :: int
  ExpiresAt :: real
  TokenType :: string


record ServerInfo =
  si_Name :: string
  si_URL :: string
  si_HasAuth :: bool

record ProcessInfo =
  pi_Name :: string
  pi_PID :: int
  pi_Running :: bool
  pi_URL :: string
  pi_Restarts :: int
  pi_Uptime :: string
  pi_LogFile :: string

text \<open>
  Values of Go's \<open>any\<close>. The first seven constructors are the dynamic types that
  \<open>encoding/json\<close> produces when it decodes into \<open>any\<close> (\<open>nil\<close>, \<open>bool\<close>,
  \<open>float64\<close>, \<open>string\<close>, \<open>[]any\<close>, \<open>map[string]any\<close>) together with \<open>int\<close>;
  the others are the typed slices that the daemon stores in \<open>Response.Data\<close>.
  \<open>float64\<close> is modelled by the real number it denotes. A Go map that may be \<open>nil\<close>
  is an \<open>option\<close> of a map.
\<close>

datatype anyval =
    ANil
  | ABool bool
  | AFloat64 real
  | AInt int
  | AString string
  | ASlice "anyval list"
  | AMap "string \<Rightarrow> anyval option"
  | AToolSlice "Tool list"
  | AServerInfoSlice "ServerInfo list"
  | AProcessInfoSlice "ProcessInfo list"
and Tool =
  Tool (Name: string) (Description: string)
       (Parameters: "(string \<Rightarrow> anyval option) option")

record RPCError =
  Code :: int
  Message :: string

record MCPResponse =
  JSONRPC :: string
  ID :: string
  Result :: "(string \<rightharpoonup> anyval) option"
  Error :: "RPCError option"

record MCPRequest =
  req_JSONRPC :: string
  req_Method :: string
  req_ID :: string
  req_Params :: anyval

record DaemonCommand =
  Action :: string
  Server :: string
  ToolName :: string
  Arguments :: "(string \<rightharpoonup> anyval) option"

record ErrorResponse =
  err_Code :: string
  err_Message :: string

record Response =
  OK :: bool
  Data :: anyval
  RespError :: "ErrorResponse option"

definition ErrInvalidArgs :: string where "ErrInvalidArgs = ''INVALID_ARGS''"
definition ErrMCPError :: string where "ErrMCPError = ''MCP_ERROR''"
definition ErrParseError :: string where "ErrParseError = ''PARSE_ERROR''"
definition ErrUnknownAction :: string where "ErrUnknownAction = ''UNKNOWN_ACTION''"

definition errResponse :: "string \<Rightarrow> string \<Rightarrow> Response" where
  "errResponse code message =
     \<lparr>OK = False, Data = ANil,
      RespError = Some \<lparr>err_Code = code, err_Message = message\<rparr>\<rparr>"

definition okResponse :: "anyval \<Rightarrow> Response" where
  "okResponse data = \<lparr>OK = True, Data = data, RespError = None\<rparr>"

section \<open>Response decoding (mcp.go)\<close>

text \<open>
  A Go \<open>error\<close> is modelled by its message. \<open>json.Unmarshal(data, &resp)\<close> into a
  fresh \<open>MCPResponse\<close> belongs to the standard library; it is the parameter \<open>dec\<close>
  of the functions that call it, \<open>Inl\<close> carrying the error.
\<close>

type_synonym decoder = "string \<Rightarrow> string + MCPResponse"

text \<open>The loop of \<open>parseSSEResponse\<close> over the lines: the first \<open>data:\<close> line whose
  trimmed payload is non-empty and decodes ends it.\<close>

fun scanLines :: "decoder \<Rightarrow> string list \<Rightarrow> MCPResponse option" where
  "scanLines dec [] = None"
| "scanLines dec (line # lines) =
     (if HasPrefix line ''data:'' then
        (let dataStr = TrimSpace (TrimPrefix line ''data:'') in
         if dataStr \<noteq> [] then
           (case dec dataStr of
              Inr resp \<Rightarrow> Some resp
            | Inl err \<Rightarrow> scanLines dec lines)
         else scanLines dec lines)
      else scanLines dec lines)"

definition parseSSEResponse :: "decoder \<Rightarrow> string \<Rightarrow> string + MCPResponse" where
  "parseSSEResponse dec text =
     (case scanLines dec (SplitLines (TrimSpace text)) of
        Some resp \<Rightarrow> Inr resp
      | None \<Rightarrow>
          (case dec text of
             Inl err \<Rightarrow> Inl (''failed to parse response: '' @ err)
           | Inr resp \<Rightarrow> Inr resp))"

section \<open>The world outside the process\<close>

text \<open>
  The files of the state directory, the clock and the remote HTTP servers are the
  environment of the program. They are one record that every effectful function takes and
  returns. A file is missing, unreadable (or not valid JSON), or holds a decoded value;
  \<open>fsWriteError\<close> is the error with which writing a file fails, if it does.
  The clock is the sequence of readings that successive calls of \<open>time.Now()\<close> obtain,
  in nanoseconds since the epoch. A remote server is a function from the number of earlier
  exchanges and the request to the outcome of the exchange; the requests that reached the
  network are logged in order. \<open>uuids\<close> is the sequence of identifiers that
  \<open>uuid.New()\<close> hands out, \<open>drawn\<close> the number handed out so far.
\<close>

datatype 'a stored = Missing | Unreadable string | Content 'a

datatype 'r outcome = NewRequestError string | DoError string | Responded 'r

record HTTPResponse =
  SessionHeader :: string
  ContentType :: string
  Body :: "string + string"

record WireRequest =
  wr_URL :: string
  wr_Header :: "string \<rightharpoonup> string"
  wr_Payload :: MCPRequest

datatype form = RawForm string | Values "(string \<times> string) list"

record TokenPost =
  tp_URL :: string
  tp_Form :: form

record TokenReply =
  StatusCode :: int
  ReplyBody :: string
  Decoded :: "string + TokenData"

record world =
  configFile :: "Config stored"
  sessionsFile :: "(string \<rightharpoonup> string) stored"
  tokensFile :: "(string \<rightharpoonup> TokenData) stored"
  fsWriteError :: "string option"
  clock :: "nat \<Rightarrow> int"
  ticks :: nat
  uuids :: "nat \<Rightarrow> string"
  drawn :: nat
  upstream :: "nat \<Rightarrow> WireRequest \<Rightarrow> HTTPResponse outcome"
  sent :: "WireRequest list"
  tokenEndpoint :: "nat \<Rightarrow> TokenPost \<Rightarrow> TokenReply outcome"
  tokenPosts :: "TokenPost list"

definition timeNow :: "world \<Rightarrow> int \<times> world" where
  "timeNow w = (clock w (ticks w), w\<lparr>ticks := Suc (ticks w)\<rparr>)"

text \<open>\<open>time.Time.Unix()\<close>: whole seconds since the epoch.\<close>

definition Unix :: "int \<Rightarrow> int" where
  "Unix t = t div 1000000000"

definition ToolsCacheTTL :: int where
  "ToolsCacheTTL = 300 * 1000000000"

text \<open>The loaders of config.go. A missing file is an empty map; a JSON \<open>null\<close> gives a
  \<open>nil\<close> map, which the callers treat exactly as an empty one, so both are the empty
  map here.\<close>

definition LoadConfig :: "world \<Rightarrow> string + Config" where
  "LoadConfig w =
     (case configFile w of
        Missing \<Rightarrow> Inr \<lparr>Servers = []\<rparr>
      | Unreadable e \<Rightarrow> Inl e
      | Content c \<Rightarrow> Inr c)"

definition LoadSessions :: "world \<Rightarrow> string + (string \<rightharpoonup> string)" where
  "LoadSessions w =
     (case sessionsFile w of
        Missing \<Rightarrow> Inr Map.empty
      | Unreadable e \<Rightarrow> Inl e
      | Content m \<Rightarrow> Inr m)"

definition SaveSessions :: "(string \<rightharpoonup> string) \<Rightarrow> world \<Rightarrow> world" where
  "SaveSessions sessions w =
     (if fsWriteError w = None then w\<lparr>sessionsFile := Content sessions\<rparr> else w)"

definition LoadTokens :: "world \<Rightarrow> string + (string \<rightharpoonup> TokenData)" where
  "LoadTokens w =
     (case tokensFile w of
        Missing \<Rightarrow> Inr Map.empty
      | Unreadable e \<Rightarrow> Inl e
      | Content m \<Rightarrow> Inr m)"

definition SaveTokens :: "(string \<rightharpoonup> TokenData) \<Rightarrow> world \<Rightarrow> world" where
  "SaveTokens tokens w =
     (if fsWriteError w = None then w\<lparr>tokensFile := Content tokens\<rparr> else w)"

section \<open>Token lookup and refresh (mcp.go)\<close>

text \<open>\<open>fmt.Sprintf("%d", n)\<close>.\<close>

definition digit :: "nat \<Rightarrow> char" where
  "digit d = char_of (48 + d)"

function showNat :: "nat \<Rightarrow> string" where
  "showNat n = (if n < 10 then [digit n] else showNat (n div 10) @ [digit (n mod 10)])"
  by pat_completeness auto
termination
  by (relation "measure id") auto

definition showInt :: "int \<Rightarrow> string" where
  "showInt i = (if i < 0 then CHR ''-'' # showNat (nat (- i)) else showNat (nat i))"

definition getClientID :: "ServerConfig \<Rightarrow> string" where
  "getClientID cfg =
     (case OAuth cfg of
        Some oa \<Rightarrow> if ClientID oa \<noteq> [] then ClientID oa else ''mcpx''
      | None \<Rightarrow> ''mcpx'')"

definition storeToken :: "string \<Rightarrow> TokenData \<Rightarrow> world \<Rightarrow> world" where
  "storeToken serverName newTokenData w =
     (let tokens = (case LoadTokens w of Inl e \<Rightarrow> Map.empty | Inr m \<Rightarrow> m)
      in SaveTokens (tokens(serverName \<mapsto> newTokenData)) w)"

text \<open>The part of \<open>RefreshOAuthToken\<close> after a decoded 200 reply: compute the expiry,
  keep the old refresh token when none came back, store, return the access token.\<close>

definition acceptRefreshed :: "string \<Rightarrow> TokenData \<Rightarrow> TokenData \<Rightarrow> world \<Rightarrow> string \<times> world" where
  "acceptRefreshed serverName tokenData new0 w0 =
     (let (new1, w1) =
            (if ExpiresIn new0 > 0 then
               (let (t, w') = timeNow w0
                in (new0\<lparr>ExpiresAt := real_of_int (Unix t) + real_of_int (ExpiresIn new0)\<rparr>, w'))
             else (new0, w0));
          new2 = (if RefreshToken new1 = [] then new1\<lparr>RefreshToken := RefreshToken tokenData\<rparr>
                  else new1)
      in (AccessToken new2, storeToken serverName new2 w1))"

definition RefreshOAuthToken ::
  "string \<Rightarrow> ServerConfig \<Rightarrow> TokenData \<Rightarrow> world \<Rightarrow> (string + string) \<times> world" where
  "RefreshOAuthToken serverName serverConfig tokenData w =
     (case OAuth serverConfig of
        None \<Rightarrow> (Inl ''no token URL configured'', w)
      | Some oa \<Rightarrow>
          if TokenURL oa = [] then (Inl ''no token URL configured'', w)
          else
            (let post = \<lparr>tp_URL = TokenURL oa,
                         tp_Form = RawForm (''grant_type=refresh_token&refresh_token=''
                                     @ RefreshToken tokenData @ ''&client_id=''
                                     @ getClientID serverConfig)\<rparr>
             in case tokenEndpoint w (length (tokenPosts w)) post of
                  NewRequestError e \<Rightarrow> (Inl e, w)
                | DoError e \<Rightarrow> (Inl e, w\<lparr>tokenPosts := tokenPosts w @ [post]\<rparr>)
                | Responded reply \<Rightarrow>
                    (let w1 = w\<lparr>tokenPosts := tokenPosts w @ [post]\<rparr>
                     in if StatusCode reply \<noteq> 200 then
                          (Inl (''token refresh failed: '' @ showInt (StatusCode reply)), w1)
                        else
                          (case Decoded reply of
                             Inl e \<Rightarrow> (Inl e, w1)
                           | Inr new0 \<Rightarrow>
                               (let (tok, w2) = acceptRefreshed serverName tokenData new0 w1
                                in (Inr tok, w2))))))"

text \<open>\<open>GetTokenForServer\<close> returns the token and an error; the error is \<open>None\<close> for
  Go's \<open>nil\<close>.\<close>

definition GetTokenForServer ::
  "string \<Rightarrow> ServerConfig \<Rightarrow> world \<Rightarrow> (string \<times> string option) \<times> world" where
  "GetTokenForServer serverName serverConfig w =
     (case LoadTokens w of
        Inl e \<Rightarrow> (([], None), w)
      | Inr tokens \<Rightarrow>
          (case tokens serverName of
             None \<Rightarrow> (([], None), w)
           | Some tokenData \<Rightarrow>
               if ExpiresAt tokenData > 0 then
                 (let (t, w1) = timeNow w
                  in if real_of_int (Unix t) > ExpiresAt tokenData - 60 then
                       (if RefreshToken tokenData \<noteq> [] then
                          (case RefreshOAuthToken serverName serverConfig tokenData w1 of
                             (Inl e, w2) \<Rightarrow> (([], None), w2)
                           | (Inr newToken, w2) \<Rightarrow>
                               if newToken = [] then (([], None), w2)
                               else ((newToken, None), w2))
                        else (([], None), w1))
                     else ((AccessToken tokenData, None), w1))
               else ((AccessToken tokenData, None), w)))"

section \<open>JSON values and \<open>encoding/json\<close>\<close>

text \<open>
  \<open>encoding/json\<close> is modelled on JSON values, not on their text: \<open>marshal_any\<close> is
  the value that \<open>json.Marshal\<close> writes for a Go value held in an \<open>any\<close>, and
  \<open>unmarshal_any\<close> is the Go value that \<open>json.Unmarshal\<close> stores into an \<open>any\<close>.
  A JSON object is a map from keys to values. A number is the real it denotes; the
  values that \<open>Marshal\<close> rejects (NaN, infinities) have no counterpart. Strings are
  taken to be valid UTF-8, which \<open>Marshal\<close> writes unchanged. Struct fields are
  matched by their exact JSON key (Go also accepts keys that differ in case only).
\<close>

datatype jvalue =
    JNull
  | JBool bool
  | JNumber real
  | JString string
  | JArray "jvalue list"
  | JObject "string \<Rightarrow> jvalue option"

definition field :: "string \<Rightarrow> jvalue \<Rightarrow> (string \<rightharpoonup> jvalue)" where
  "field k v = [k \<mapsto> v]"

text \<open>A field tagged \<open>omitempty\<close>: left out when the predicate says the value is
  empty.\<close>

definition omitempty :: "bool \<Rightarrow> string \<Rightarrow> jvalue \<Rightarrow> (string \<rightharpoonup> jvalue)" where
  "omitempty isEmpty k v = (if isEmpty then Map.empty else [k \<mapsto> v])"

text \<open>A field of type \<open>map[string]any\<close> tagged \<open>omitempty\<close>: left out when the map
  is \<open>nil\<close> or has no entry.\<close>

definition omitemptyMap :: "string \<Rightarrow> (string \<rightharpoonup> jvalue) option \<Rightarrow> (string \<rightharpoonup> jvalue)" where
  "omitemptyMap k m =
     (case m of
        None \<Rightarrow> Map.empty
      | Some obj \<Rightarrow> if obj = Map.empty then Map.empty else [k \<mapsto> JObject obj])"

definition marshal_ServerInfo :: "ServerInfo \<Rightarrow> jvalue" where
  "marshal_ServerInfo i =
     JObject (field ''name'' (JString (si_Name i))
              ++ field ''url'' (JString (si_URL i))
              ++ omitempty (\<not> si_HasAuth i) ''has_auth'' (JBool (si_HasAuth i)))"

definition marshal_ProcessInfo :: "ProcessInfo \<Rightarrow> jvalue" where
  "marshal_ProcessInfo i =
     JObject (field ''name'' (JString (pi_Name i))
              ++ omitempty (pi_PID i = 0) ''pid'' (JNumber (real_of_int (pi_PID i)))
              ++ field ''running'' (JBool (pi_Running i))
              ++ field ''url'' (JString (pi_URL i))
              ++ field ''restarts'' (JNumber (real_of_int (pi_Restarts i)))
              ++ omitempty (pi_Uptime i = []) ''uptime'' (JString (pi_Uptime i))
              ++ field ''log_file'' (JString (pi_LogFile i)))"

primrec marshal_any :: "anyval \<Rightarrow> jvalue" and marshal_Tool :: "Tool \<Rightarrow> jvalue" where
  "marshal_any ANil = JNull"
| "marshal_any (ABool b) = JBool b"
| "marshal_any (AFloat64 r) = JNumber r"
| "marshal_any (AInt i) = JNumber (real_of_int i)"
| "marshal_any (AString s) = JString s"
| "marshal_any (ASlice xs) = JArray (map marshal_any xs)"
| "marshal_any (AMap m) = JObject (map_option marshal_any \<circ> m)"
| "marshal_any (AToolSlice ts) = JArray (map marshal_Tool ts)"
| "marshal_any (AServerInfoSlice infos) = JArray (map marshal_ServerInfo infos)"
| "marshal_any (AProcessInfoSlice ps) = JArray (map marshal_ProcessInfo ps)"
| "marshal_Tool (Tool n d p) =
     JObject (field ''name'' (JString n)
              ++ omitempty (d = []) ''description'' (JString d)
              ++ omitemptyMap ''parameters''
                   (map_option ((\<circ>) (map_option marshal_any)) p))"

primrec unmarshal_any :: "jvalue \<Rightarrow> anyval" where
  "unmarshal_any JNull = ANil"
| "unmarshal_any (JBool b) = ABool b"
| "unmarshal_any (JNumber r) = AFloat64 r"
| "unmarshal_any (JString s) = AString s"
| "unmarshal_any (JArray js) = ASlice (map unmarshal_any js)"
| "unmarshal_any (JObject obj) = AMap (map_option unmarshal_any \<circ> obj)"

text \<open>Decoding one struct field. An absent key and \<open>null\<close> leave the zero value; a
  value of another JSON type is an \<open>UnmarshalTypeError\<close>, whose text is not reproduced.\<close>

definition typeError :: string where
  "typeError = ''json: cannot unmarshal value into Go value''"

fun decString :: "jvalue option \<Rightarrow> string + string" where
  "decString None = Inr []"
| "decString (Some JNull) = Inr []"
| "decString (Some (JString s)) = Inr s"
| "decString (Some _) = Inl typeError"





fun decMap :: "jvalue option \<Rightarrow> string + (string \<rightharpoonup> anyval) option" where
  "decMap None = Inr None"
| "decMap (Some JNull) = Inr None"
| "decMap (Some (JObject obj)) = Inr (Some (map_option unmarshal_any \<circ> obj))"
| "decMap (Some _) = Inl typeError"

definition bindE :: "'e + 'a \<Rightarrow> ('a \<Rightarrow> 'e + 'b) \<Rightarrow> 'e + 'b" where
  "bindE r f = (case r of Inl e \<Rightarrow> Inl e | Inr x \<Rightarrow> f x)"

fun sequenceE :: "('e + 'a) list \<Rightarrow> 'e + 'a list" where
  "sequenceE [] = Inr []"
| "sequenceE (r # rs) = bindE r (\<lambda>x. bindE (sequenceE rs) (\<lambda>xs. Inr (x # xs)))"

text \<open>The conversion at the end of \<open>ListTools\<close>: the \<open>tools\<close> value is marshalled and
  unmarshalled into a slice of structs with the keys \<open>name\<close>, \<open>description\<close> and
  \<open>inputSchema\<close>, and each becomes a \<open>Tool\<close>.\<close>

fun decodeRawTool :: "jvalue \<Rightarrow> string + Tool" where
  "decodeRawTool JNull = Inr (Tool [] [] None)"
| "decodeRawTool (JObject obj) =
     bindE (decString (obj ''name'')) (\<lambda>n.
     bindE (decString (obj ''description'')) (\<lambda>d.
     bindE (decMap (obj ''inputSchema'')) (\<lambda>p.
     Inr (Tool n d p))))"
| "decodeRawTool _ = Inl typeError"

fun decodeRawTools :: "jvalue \<Rightarrow> string + Tool list" where
  "decodeRawTools JNull = Inr []"
| "decodeRawTools (JArray js) = sequenceE (map decodeRawTool js)"
| "decodeRawTools _ = Inl typeError"

definition convertTools :: "anyval \<Rightarrow> string + Tool list" where
  "convertTools toolsRaw = decodeRawTools (marshal_any toolsRaw)"

section \<open>The MCP client (mcp.go)\<close>

text \<open>What a call returns instead of a value: a Go \<open>error\<close> with its message, or a
  run-time panic (a \<open>nil\<close> pointer dereference).\<close>

datatype failure = Failed string | Panicked

record MCPClient =
  serverName :: string
  clientConfig :: ServerConfig
  sessionID :: string
  oauthToken :: string
  persistent :: bool
  initialized :: bool

definition NewMCPClient :: "string \<Rightarrow> ServerConfig \<Rightarrow> MCPClient" where
  "NewMCPClient name cfg =
     \<lparr>serverName = name, clientConfig = cfg, sessionID = [], oauthToken = [],
      persistent = SessionBased cfg, initialized = False\<rparr>"

definition Close :: "MCPClient \<Rightarrow> MCPClient" where
  "Close c = c\<lparr>initialized := False, sessionID := []\<rparr>"

definition SetOAuthToken :: "string \<Rightarrow> MCPClient \<Rightarrow> MCPClient" where
  "SetOAuthToken token c = c\<lparr>oauthToken := token\<rparr>"

text \<open>\<open>http.Header.Set\<close> stores a key in its canonical form: the first letter and every
  letter after a hyphen in upper case, the others in lower case.\<close>

definition upperChar :: "char \<Rightarrow> char" where
  "upperChar c =
     (let n = (of_char c :: nat) in if 97 \<le> n \<and> n \<le> 122 then char_of (n - 32) else c)"

definition lowerChar :: "char \<Rightarrow> char" where
  "lowerChar c =
     (let n = (of_char c :: nat) in if 65 \<le> n \<and> n \<le> 90 then char_of (n + 32) else c)"

fun canonical :: "bool \<Rightarrow> string \<Rightarrow> string" where
  "canonical up [] = []"
| "canonical up (c # cs) =
     (if up then upperChar c else lowerChar c) # canonical (c = CHR ''-'') cs"

definition CanonicalHeaderKey :: "string \<Rightarrow> string" where
  "CanonicalHeaderKey k = canonical True k"

definition headerSet :: "string \<Rightarrow> string \<Rightarrow> (string \<rightharpoonup> string) \<Rightarrow> (string \<rightharpoonup> string)" where
  "headerSet k v h = h(CanonicalHeaderKey k \<mapsto> v)"

definition defaultHeaders :: "(string \<times> string) list" where
  "defaultHeaders = [(''Content-Type'', ''application/json''),
                     (''Accept'', ''application/json, text/event-stream'')]"

definition requestHeader :: "MCPClient \<Rightarrow> (string \<rightharpoonup> string)" where
  "requestHeader c =
     (let h1 = fold (\<lambda>(k, v). headerSet k v) defaultHeaders Map.empty;
          h2 = fold (\<lambda>(k, v). headerSet k v) (Headers (clientConfig c)) h1;
          h3 = (if oauthToken c \<noteq> [] then headerSet ''Authorization'' (''Bearer '' @ oauthToken c) h2
                else h2)
      in if sessionID c \<noteq> [] then headerSet ''Mcp-Session-Id'' (sessionID c) h3 else h3)"

text \<open>\<open>json.Unmarshal(respBody, &mcpResp)\<close> with \<open>mcpResp\<close> a \<open>nil\<close> pointer: the
  JSON literal \<open>null\<close> leaves the pointer \<open>nil\<close> without an error; any other body is
  decoded into a fresh \<open>MCPResponse\<close>.\<close>

definition isJSONSpace :: "char \<Rightarrow> bool" where
  "isJSONSpace c = (c = CHR 0x20 \<or> c = CHR 0x09 \<or> c = CHR 0x0D \<or> c = CHR 0x0A)"

definition isJSONNull :: "string \<Rightarrow> bool" where
  "isJSONNull s = (rev (dropWhile isJSONSpace (rev (dropWhile isJSONSpace s))) = ''null'')"

definition unmarshalPtr :: "decoder \<Rightarrow> string \<Rightarrow> string + MCPResponse option" where
  "unmarshalPtr dec body =
     (if isJSONNull body then Inr None
      else (case dec body of Inl e \<Rightarrow> Inl e | Inr r \<Rightarrow> Inr (Some r)))"

text \<open>\<open>Request\<close> returns the response (possibly a \<open>nil\<close> pointer), the session id of
  the response header, and the error. The parameters are values that \<open>json.Marshal\<close>
  accepts, so the error of marshalling the request has no counterpart.\<close>

definition Request ::
  "decoder \<Rightarrow> MCPClient \<Rightarrow> string \<Rightarrow> anyval \<Rightarrow> world
     \<Rightarrow> ((string + MCPResponse option) \<times> string) \<times> world" where
  "Request dec c method params w =
     (let payload = \<lparr>req_JSONRPC = ''2.0'', req_Method = method,
                      req_ID = uuids w (drawn w), req_Params = params\<rparr>;
          w0 = w\<lparr>drawn := Suc (drawn w)\<rparr>;
          wire = \<lparr>wr_URL = URL (clientConfig c), wr_Header = requestHeader c,
                   wr_Payload = payload\<rparr>
      in case upstream w0 (length (sent w0)) wire of
           NewRequestError e \<Rightarrow> ((Inl (''failed to create request: '' @ e), []), w0)
         | DoError e \<Rightarrow>
             ((Inl (''request failed: '' @ e), []), w0\<lparr>sent := sent w0 @ [wire]\<rparr>)
         | Responded resp \<Rightarrow>
             (let w1 = w0\<lparr>sent := sent w0 @ [wire]\<rparr>;
                  newSessionID = SessionHeader resp
              in case Body resp of
                   Inl e \<Rightarrow> ((Inl (''failed to read response: '' @ e), newSessionID), w1)
                 | Inr respBody \<Rightarrow>
                     (case (if Contains (ContentType resp) ''text/event-stream''
                            then map_sum id Some (parseSSEResponse dec respBody)
                            else unmarshalPtr dec respBody) of
                        Inl e \<Rightarrow>
                          ((Inl (''failed to parse response: '' @ e), newSessionID), w1)
                      | Inr mcpResp \<Rightarrow> ((Inr mcpResp, newSessionID), w1))))"

definition initializeParams :: anyval where
  "initializeParams =
     AMap [''protocolVersion'' \<mapsto> AString ''2024-11-05'',
           ''capabilities'' \<mapsto> AMap Map.empty,
           ''clientInfo'' \<mapsto> AMap [''name'' \<mapsto> AString ''mcpx'',
                                   ''version'' \<mapsto> AString ''0.1.0'']]"

text \<open>The session id that \<open>Initialize\<close> finds cached: none for a session-based server,
  none when the sessions file cannot be loaded.\<close>

definition cachedSession :: "MCPClient \<Rightarrow> world \<Rightarrow> string option" where
  "cachedSession c w =
     (if \<not> SessionBased (clientConfig c) then
        (case LoadSessions w of
           Inl e \<Rightarrow> None
         | Inr sessions \<Rightarrow> sessions (serverName c))
      else None)"

definition Initialize ::
  "decoder \<Rightarrow> MCPClient \<Rightarrow> world \<Rightarrow> (failure option \<times> MCPClient) \<times> world" where
  "Initialize dec c w =
     (case cachedSession c w of
        Some sid \<Rightarrow> ((None, c\<lparr>sessionID := sid\<rparr>), w)
      | None \<Rightarrow>
          (case Request dec c ''initialize'' initializeParams w of
             ((Inl e, sid), w1) \<Rightarrow> ((Some (Failed e), c), w1)
           | ((Inr None, sid), w1) \<Rightarrow> ((Some Panicked, c), w1)
           | ((Inr (Some resp), sid), w1) \<Rightarrow>
               (case Error resp of
                  Some rpcErr \<Rightarrow>
                    ((Some (Failed (''initialize failed: '' @ Message rpcErr)), c), w1)
                | None \<Rightarrow>
                    if sid \<noteq> [] then
                      (let c1 = c\<lparr>sessionID := sid\<rparr>
                       in if \<not> SessionBased (clientConfig c) then
                            (let sessions = (case LoadSessions w1 of
                                               Inl e \<Rightarrow> Map.empty
                                             | Inr m \<Rightarrow> m)
                             in ((None, c1),
                                 SaveSessions (sessions(serverName c \<mapsto> sid)) w1))
                          else ((None, c1), w1))
                    else ((None, c), w1))))"

definition ListTools ::
  "decoder \<Rightarrow> MCPClient \<Rightarrow> world \<Rightarrow> ((failure + Tool list) \<times> MCPClient) \<times> world" where
  "ListTools dec c w =
     (case Initialize dec c w of
        ((Some err, c1), w1) \<Rightarrow> ((Inl err, c1), w1)
      | ((None, c1), w1) \<Rightarrow>
          (case Request dec c1 ''tools/list'' ANil w1 of
             ((Inl e, sid), w2) \<Rightarrow> ((Inl (Failed e), c1), w2)
           | ((Inr None, sid), w2) \<Rightarrow> ((Inl Panicked, c1), w2)
           | ((Inr (Some resp), sid), w2) \<Rightarrow>
               (case Error resp of
                  Some rpcErr \<Rightarrow>
                    ((Inl (Failed (''list tools failed: '' @ Message rpcErr)), c1), w2)
                | None \<Rightarrow>
                    (case Result resp of
                       None \<Rightarrow> ((Inl (Failed ''unexpected response format''), c1), w2)
                     | Some result \<Rightarrow>
                         (case result ''tools'' of
                            None \<Rightarrow> ((Inl (Failed ''no tools in response''), c1), w2)
                          | Some toolsRaw \<Rightarrow>
                              (case convertTools toolsRaw of
                                 Inl e \<Rightarrow> ((Inl (Failed e), c1), w2)
                               | Inr tools \<Rightarrow> ((Inr tools, c1), w2)))))))"

definition CallTool ::
  "decoder \<Rightarrow> MCPClient \<Rightarrow> string \<Rightarrow> (string \<rightharpoonup> anyval) option \<Rightarrow> world
     \<Rightarrow> ((failure + (string \<rightharpoonup> anyval) option) \<times> MCPClient) \<times> world" where
  "CallTool dec c toolName arguments w =
     (case Initialize dec c w of
        ((Some err, c1), w1) \<Rightarrow> ((Inl err, c1), w1)
      | ((None, c1), w1) \<Rightarrow>
          (case Request dec c1 ''tools/call''
                  (AMap [''name'' \<mapsto> AString toolName,
                         ''arguments'' \<mapsto> (case arguments of None \<Rightarrow> ANil | Some m \<Rightarrow> AMap m)]) w1 of
             ((Inl e, sid), w2) \<Rightarrow> ((Inl (Failed e), c1), w2)
           | ((Inr None, sid), w2) \<Rightarrow> ((Inl Panicked, c1), w2)
           | ((Inr (Some resp), sid), w2) \<Rightarrow>
               (case Error resp of
                  Some rpcErr \<Rightarrow>
                    ((Inl (Failed (''tool call failed: '' @ Message rpcErr)), c1), w2)
                | None \<Rightarrow> ((Inr (Result resp), c1), w2))))"

section \<open>The daemon (daemon.go)\<close>

text \<open>
  Times are nanoseconds since the epoch. The maps \<open>clients\<close> and \<open>toolsCache\<close> are
  ranged over and deleted from, so they are association lists read with \<open>map_of\<close>;
  assigning to a key is \<open>AList.update\<close>, \<open>delete\<close> is \<open>AList.delete\<close>. The map holds
  pointers to clients: what a call does to a client it obtained from the map is written
  back under the same key. The local process manager is represented by the status records
  of the processes it tracks.
\<close>

record CachedTools =
  Tools :: "Tool list"
  Expires :: int

record MCPDaemon =
  config :: Config
  clients :: "(string \<times> MCPClient) list"
  toolsCache :: "(string \<times> CachedTools) list"
  localManager :: "ProcessInfo list"
  running :: bool

definition NewMCPDaemon :: "world \<Rightarrow> string + MCPDaemon" where
  "NewMCPDaemon w =
     (case LoadConfig w of
        Inl e \<Rightarrow> Inl e
      | Inr cfg \<Rightarrow>
          Inr \<lparr>config = cfg, clients = [], toolsCache = [], localManager = [],
               running = True\<rparr>)"

definition quote :: char where
  "quote = CHR 0x27"

definition getClient ::
  "string \<Rightarrow> MCPDaemon \<Rightarrow> world \<Rightarrow> ((string + MCPClient) \<times> MCPDaemon) \<times> world" where
  "getClient name d w =
     (case map_of (clients d) name of
        Some client \<Rightarrow> ((Inr client, d), w)
      | None \<Rightarrow>
          (case map_of (Servers (config d)) name of
             None \<Rightarrow>
               ((Inl (''server '' @ [quote] @ name @ [quote] @ '' not configured''), d), w)
           | Some serverConfig \<Rightarrow>
               (let client = NewMCPClient name serverConfig;
                    ((token, err), w1) = GetTokenForServer name serverConfig w;
                    client1 = (if token \<noteq> [] then SetOAuthToken token client else client)
                in ((Inr client1, d\<lparr>clients := AList.update name client1 (clients d)\<rparr>),
                    w1))))"

text \<open>The first part of \<open>getTools\<close>: the cached tools when an entry exists and the clock
  is before its expiry. The clock is read only when an entry exists.\<close>

definition freshTools :: "string \<Rightarrow> MCPDaemon \<Rightarrow> world \<Rightarrow> Tool list option \<times> world" where
  "freshTools name d w =
     (case map_of (toolsCache d) name of
        Some cached \<Rightarrow>
          (let (t, w1) = timeNow w
           in (if t < Expires cached then Some (Tools cached) else None, w1))
      | None \<Rightarrow> (None, w))"

definition getTools ::
  "decoder \<Rightarrow> string \<Rightarrow> MCPDaemon \<Rightarrow> world \<Rightarrow> ((failure + Tool list) \<times> MCPDaemon) \<times> world" where
  "getTools dec name d w =
     (case freshTools name d w of
        (Some tools, w0) \<Rightarrow> ((Inr tools, d), w0)
      | (None, w0) \<Rightarrow>
          (case getClient name d w0 of
             ((Inl e, d1), w1) \<Rightarrow> ((Inl (Failed e), d1), w1)
           | ((Inr client, d1), w1) \<Rightarrow>
               (case ListTools dec client w1 of
                  ((Inl err, client1), w2) \<Rightarrow>
                    ((Inl err, d1\<lparr>clients := AList.update name client1 (clients d1)\<rparr>), w2)
                | ((Inr tools, client1), w2) \<Rightarrow>
                    (let (t, w3) = timeNow w2;
                         d2 = d1\<lparr>clients := AList.update name client1 (clients d1)\<rparr>
                     in ((Inr tools,
                          d2\<lparr>toolsCache :=
                                AList.update name \<lparr>Tools = tools, Expires = t + ToolsCacheTTL\<rparr>
                                  (toolsCache d2)\<rparr>), w3)))))"

definition callTool ::
  "decoder \<Rightarrow> string \<Rightarrow> string \<Rightarrow> (string \<rightharpoonup> anyval) option \<Rightarrow> MCPDaemon \<Rightarrow> world
     \<Rightarrow> ((failure + (string \<rightharpoonup> anyval) option) \<times> MCPDaemon) \<times> world" where
  "callTool dec name toolName arguments d w =
     (case getClient name d w of
        ((Inl e, d1), w1) \<Rightarrow> ((Inl (Failed e), d1), w1)
      | ((Inr client, d1), w1) \<Rightarrow>
          (case CallTool dec client toolName arguments w1 of
             ((r, client1), w2) \<Rightarrow>
               ((r, d1\<lparr>clients := AList.update name client1 (clients d1)\<rparr>), w2)))"

text \<open>Go reads a missing map key as the zero value.\<close>

definition zeroServerConfig :: ServerConfig where
  "zeroServerConfig =
     \<lparr>URL = [], Headers = [], OAuth = None, Scope = [], SessionBased = False, Local = None\<rparr>"

definition evict :: "string \<Rightarrow> MCPDaemon \<Rightarrow> MCPDaemon" where
  "evict name d =
     d\<lparr>clients := AList.delete name (clients d),
       toolsCache := AList.delete name (toolsCache d)\<rparr>"

text \<open>One round of the loop of \<open>reloadConfig\<close> over \<open>d.clients\<close>. The second component
  collects the names of the servers whose client was closed; a closed client is always
  removed from the map in the same round.\<close>

definition reloadClient ::
  "Config \<Rightarrow> string \<times> MCPClient \<Rightarrow> MCPDaemon \<times> string list \<Rightarrow> MCPDaemon \<times> string list" where
  "reloadClient oldConfig entry acc =
     (case (entry, acc) of
        ((name, client), (d, closedNames)) \<Rightarrow>
          (case map_of (Servers (config d)) name of
             None \<Rightarrow> (evict name d, closedNames @ [name])
           | Some newServerConfig \<Rightarrow>
               (let oldServerConfig =
                      (case map_of (Servers oldConfig) name of
                         Some sc \<Rightarrow> sc
                       | None \<Rightarrow> zeroServerConfig)
                in if URL oldServerConfig \<noteq> URL newServerConfig
                      \<or> SessionBased oldServerConfig \<noteq> SessionBased newServerConfig
                   then (evict name d, closedNames @ [name])
                   else (d, closedNames))))"

text \<open>\<open>reloadConfig\<close> returns its error, the daemon, and the names of the clients it
  closed.\<close>

definition reloadConfig ::
  "MCPDaemon \<Rightarrow> world \<Rightarrow> string option \<times> MCPDaemon \<times> string list" where
  "reloadConfig d w =
     (case LoadConfig w of
        Inl e \<Rightarrow> (Some e, d, [])
      | Inr cfg \<Rightarrow>
          (let oldConfig = config d;
               d0 = d\<lparr>config := cfg\<rparr>;
               (d1, closedNames) = fold (reloadClient oldConfig) (clients d0) (d0, [])
           in (None, d1, closedNames)))"

definition closeAllClients :: "MCPDaemon \<Rightarrow> MCPDaemon" where
  "closeAllClients d = d\<lparr>clients := [], toolsCache := []\<rparr>"

definition serverInfos :: "Config \<Rightarrow> ServerInfo list" where
  "serverInfos cfg =
     map (\<lambda>(name, sc). \<lparr>si_Name = name, si_URL = URL sc, si_HasAuth = False\<rparr>) (Servers cfg)"

definition anyOfMap :: "(string \<rightharpoonup> anyval) option \<Rightarrow> anyval" where
  "anyOfMap m = (case m of None \<Rightarrow> ANil | Some entries \<Rightarrow> AMap entries)"

text \<open>\<open>handleCommand\<close>. The result is \<open>None\<close> when the handler panics and so produces
  no response.\<close>

definition handleCommand ::
  "decoder \<Rightarrow> DaemonCommand \<Rightarrow> MCPDaemon \<Rightarrow> world \<Rightarrow> (Response option \<times> MCPDaemon) \<times> world" where
  "handleCommand dec cmd d w =
     (if Action cmd = ''ping'' then ((Some (okResponse (AString ''pong'')), d), w)
      else if Action cmd = ''reload'' then
        (case reloadConfig d w of
           (Some e, d1, closedNames) \<Rightarrow> ((Some (errResponse ErrMCPError e), d1), w)
         | (None, d1, closedNames) \<Rightarrow> ((Some (okResponse (AString ''config reloaded'')), d1), w))
      else if Action cmd = ''servers'' then
        ((Some (okResponse (AMap [''servers'' \<mapsto> AServerInfoSlice (serverInfos (config d))])),
          d), w)
      else if Action cmd = ''tools'' then
        (if Server cmd = [] then
           ((Some (errResponse ErrInvalidArgs ''server name required''), d), w)
         else
           (case getTools dec (Server cmd) d w of
              ((Inl (Failed e), d1), w1) \<Rightarrow> ((Some (errResponse ErrMCPError e), d1), w1)
            | ((Inl Panicked, d1), w1) \<Rightarrow> ((None, d1), w1)
            | ((Inr tools, d1), w1) \<Rightarrow>
                ((Some (okResponse (AMap [''server'' \<mapsto> AString (Server cmd),
                                          ''tools'' \<mapsto> AToolSlice tools])), d1), w1)))
      else if Action cmd = ''call'' then
        (if Server cmd = [] \<or> ToolName cmd = [] then
           ((Some (errResponse ErrInvalidArgs ''server and tool names required''), d), w)
         else
           (case callTool dec (Server cmd) (ToolName cmd) (Arguments cmd) d w of
              ((Inl (Failed e), d1), w1) \<Rightarrow> ((Some (errResponse ErrMCPError e), d1), w1)
            | ((Inl Panicked, d1), w1) \<Rightarrow> ((None, d1), w1)
            | ((Inr result, d1), w1) \<Rightarrow>
                ((Some (okResponse (AMap [''server'' \<mapsto> AString (Server cmd),
                                          ''tool'' \<mapsto> AString (ToolName cmd),
                                          ''result'' \<mapsto> anyOfMap result])), d1), w1)))
      else if Action cmd = ''status'' then
        ((Some (okResponse
                 (AMap [''daemon'' \<mapsto> AString ''running'',
                        ''servers'' \<mapsto> AInt (int (length (Servers (config d)))),
                        ''local'' \<mapsto> AInt (int (length (filter (\<lambda>(name, sc). Local sc \<noteq> None)
                                                         (Servers (config d))))),
                        ''processes'' \<mapsto> AProcessInfoSlice (localManager d)])), d), w)
      else if Action cmd = ''shutdown'' then
        ((Some (okResponse (AString ''shutting down'')),
          d\<lparr>running := False, localManager := []\<rparr>), w)
      else
        ((Some (errResponse ErrUnknownAction (''unknown action: '' @ Action cmd)), d), w))"

section \<open>The OAuth authorization flow (oauth.go)\<close>

















section \<open>JSON encoding of the wire types\<close>










section \<open>Notions used to state the properties\<close>


definition sampleDecoder :: decoder where
  "sampleDecoder s =
     (if s = ''{}'' then Inr \<lparr>JSONRPC = [], ID = [], Result = None, Error = None\<rparr>
      else Inl ''invalid character'')"


definition noReply :: "nat \<Rightarrow> 'q \<Rightarrow> 'r outcome" where
  "noReply n q = DoError ''connection refused''"

definition plainServer :: ServerConfig where
  "plainServer = \<lparr>URL = ''http://localhost:3000/mcp'', Headers = [], OAuth = None,
                   Scope = [], SessionBased = False, Local = None\<rparr>"

definition sampleToken :: "real \<Rightarrow> TokenData" where
  "sampleToken e = \<lparr>AccessToken = ''tok'', RefreshToken = ''ref'', ExpiresIn = 0,
                     ExpiresAt = e, TokenType = ''Bearer''\<rparr>"

text \<open>A world whose clock always reads 100 seconds after the epoch and whose token file
  holds one record for the server \<open>s\<close>.\<close>

definition tokenWorld :: "TokenData \<Rightarrow> world" where
  "tokenWorld td =
     \<lparr>configFile = Missing, sessionsFile = Missing,
      tokensFile = Content [''s'' \<mapsto> td], fsWriteError = None,
      clock = (\<lambda>n. 100 * 1000000000), ticks = 0, uuids = (\<lambda>n. ''id''), drawn = 0,
      upstream = noReply, sent = [], tokenEndpoint = noReply, tokenPosts = []\<rparr>"

definition nowSeconds :: "world \<Rightarrow> real" where
  "nowSeconds w = real_of_int (Unix (clock w (ticks w)))"

definition inWindow :: "TokenData \<Rightarrow> world \<Rightarrow> bool" where
  "inWindow td w = (ExpiresAt td \<le> 0 \<or> nowSeconds w \<le> ExpiresAt td - 60)"

definition noTokenURL :: "ServerConfig \<Rightarrow> bool" where
  "noTokenURL cfg = (case OAuth cfg of None \<Rightarrow> True | Some oa \<Rightarrow> TokenURL oa = [])"


text \<open>A daemon that has served the server \<open>s\<close> before: it holds a client for it and a
  cache entry that expired at time 0.\<close>

definition staleDaemon :: MCPDaemon where
  "staleDaemon =
     \<lparr>config = \<lparr>Servers = [(''s'', plainServer)]\<rparr>,
      clients = [(''s'', NewMCPClient ''s'' plainServer)],
      toolsCache = [(''s'', \<lparr>Tools = [Tool ''t1'' ''d'' None], Expires = 0\<rparr>)],
      localManager = [], running = True\<rparr>"

definition toolsCommand :: "string \<Rightarrow> DaemonCommand" where
  "toolsCommand s = \<lparr>Action = ''tools'', Server = s, ToolName = [], Arguments = None\<rparr>"



text \<open>The invariant of the daemon's maps: every client belongs to a configured server,
  and every cache entry belongs to a server that has a client.\<close>

definition daemonInv :: "MCPDaemon \<Rightarrow> bool" where
  "daemonInv d =
     (list_all (\<lambda>(name, client). map_of (Servers (config d)) name \<noteq> None) (clients d)
      \<and> list_all (\<lambda>(name, cached). map_of (clients d) name \<noteq> None) (toolsCache d))"

text \<open>\<open>keeps old new name\<close>: the test of \<open>reloadConfig\<close> under which the client of
  \<open>name\<close> stays: the server is in the new configuration, with the URL and the
  session mode it had in the old one.\<close>

definition keeps :: "Config \<Rightarrow> Config \<Rightarrow> string \<Rightarrow> bool" where
  "keeps old new name =
     (case map_of (Servers new) name of
        None \<Rightarrow> False
      | Some newServerConfig \<Rightarrow>
          (let oldServerConfig =
                 (case map_of (Servers old) name of Some sc \<Rightarrow> sc | None \<Rightarrow> zeroServerConfig)
           in URL oldServerConfig = URL newServerConfig
              \<and> SessionBased oldServerConfig = SessionBased newServerConfig))"

text \<open>\<open>reloadTimes n\<close> applies \<open>reloadConfig\<close> n times in a row and collects the names
  of all clients closed on the way.\<close>

fun reloadTimes :: "nat \<Rightarrow> MCPDaemon \<Rightarrow> world \<Rightarrow> MCPDaemon \<times> string list" where
  "reloadTimes 0 d w = (d, [])"
| "reloadTimes (Suc n) d w =
     (case reloadConfig d w of
        (err, d1, closedNames) \<Rightarrow>
          (case reloadTimes n d1 w of
             (d2, closedLater) \<Rightarrow> (d2, closedNames @ closedLater)))"

text \<open>The world of \<open>tokenWorld\<close> with a configuration file.\<close>

definition configWorld :: "Config \<Rightarrow> world" where
  "configWorld cfg = (tokenWorld (sampleToken 1000))\<lparr>configFile := Content cfg\<rparr>"

text \<open>The keys of a map kept as an association list.\<close>

definition keysOf :: "('k \<times> 'v) list \<Rightarrow> 'k set" where
  "keysOf xs = fst ` set xs"





text \<open>A body whose \<open>result\<close> is the empty object, a decoder that knows this one body, and
  a world whose server answers every request with it.\<close>

definition emptyResultBody :: string where
  "emptyResultBody = ''{'' @ [CHR 0x22] @ ''result'' @ [CHR 0x22] @ '':{}}''"

definition emptyResultDecoder :: decoder where
  "emptyResultDecoder s =
     (if s = emptyResultBody
      then Inr \<lparr>JSONRPC = [], ID = [], Result = Some Map.empty, Error = None\<rparr>
      else Inl ''invalid character'')"

definition replyWorld :: "string \<Rightarrow> string \<Rightarrow> world" where
  "replyWorld hdr body =
     (tokenWorld (sampleToken 1000))
       \<lparr>upstream := (\<lambda>n q. Responded \<lparr>SessionHeader = hdr, ContentType = ''application/json'',
                                       Body = Inr body\<rparr>)\<rparr>"











section \<open>The SSE parser\<close>





section \<open>Token lookup and refresh\<close>

text \<open>
  Claim C2 as stated fails: with \<open>expiresAt = -1\<close> and the clock at 100 seconds the
  record's access token is returned, although \<open>expiresAt\<close> is not 0 and
  \<open>now \<le> expiresAt - 60\<close> is false.
\<close>

theorem GetTokenForServer_claimed_window_counterexample:
  "fst (fst (GetTokenForServer ''s'' plainServer (tokenWorld (sampleToken (- 1)))))
     = AccessToken (sampleToken (- 1))
   \<and> ExpiresAt (sampleToken (- 1)) \<noteq> 0
   \<and> \<not> nowSeconds (tokenWorld (sampleToken (- 1))) \<le> ExpiresAt (sampleToken (- 1)) - 60"
  by (simp add: GetTokenForServer_def LoadTokens_def tokenWorld_def sampleToken_def nowSeconds_def Unix_def)

lemma GetTokenForServer_in_window:
  assumes "LoadTokens w = Inr tokens" "tokens s = Some td" "inWindow td w"
  shows "GetTokenForServer s cfg w
           = ((AccessToken td, None), if ExpiresAt td \<le> 0 then w else snd (timeNow w))"
  using assms
  by (auto simp: GetTokenForServer_def inWindow_def nowSeconds_def timeNow_def)

lemma GetTokenForServer_outside:
  assumes "LoadTokens w = Inr tokens" "tokens s = Some td" "\<not> inWindow td w"
  shows "fst (GetTokenForServer s cfg w) =
           (if RefreshToken td = [] then ([], None)
            else case fst (RefreshOAuthToken s cfg td (snd (timeNow w))) of
                   Inl e \<Rightarrow> ([], None) | Inr t \<Rightarrow> (t, None))"
  using assms
  by (auto simp: GetTokenForServer_def inWindow_def nowSeconds_def timeNow_def split: prod.splits sum.splits)

text \<open>
  Claim C2, amended. For every stored token record of a server, \<open>GetTokenForServer\<close>
  returns the record's access token, without refreshing, when \<open>expiresAt \<le> 0\<close> or
  \<open>now \<le> expiresAt - 60\<close>; outside that window it returns the empty string or the token
  that the refresh returned. Hence a non-empty access token that differs from the refreshed
  one is returned if and only if \<open>expiresAt \<le> 0\<close> or \<open>now \<le> expiresAt - 60\<close>.
\<close>

theorem GetTokenForServer_window:
  assumes "LoadTokens w = Inr tokens" and "tokens s = Some td"
  shows "(inWindow td w \<longrightarrow>
            GetTokenForServer s cfg w
              = ((AccessToken td, None), if ExpiresAt td \<le> 0 then w else snd (timeNow w)))
       \<and> (\<not> inWindow td w \<longrightarrow>
            fst (GetTokenForServer s cfg w) =
              (if RefreshToken td = [] then ([], None)
               else case fst (RefreshOAuthToken s cfg td (snd (timeNow w))) of
                      Inl e \<Rightarrow> ([], None) | Inr t \<Rightarrow> (t, None)))
       \<and> (AccessToken td \<noteq> []
            \<and> fst (RefreshOAuthToken s cfg td (snd (timeNow w))) \<noteq> Inr (AccessToken td) \<longrightarrow>
            (fst (fst (GetTokenForServer s cfg w)) = AccessToken td \<longleftrightarrow> inWindow td w))"
proof (intro conjI impI)
  assume "inWindow td w"
  then show "GetTokenForServer s cfg w
              = ((AccessToken td, None), if ExpiresAt td \<le> 0 then w else snd (timeNow w))"
    using assms by (rule GetTokenForServer_in_window [rotated 2])
next
  assume "\<not> inWindow td w"
  then show "fst (GetTokenForServer s cfg w) =
              (if RefreshToken td = [] then ([], None)
               else case fst (RefreshOAuthToken s cfg td (snd (timeNow w))) of
                      Inl e \<Rightarrow> ([], None) | Inr t \<Rightarrow> (t, None))"
    using assms by (rule GetTokenForServer_outside [rotated 2])
next
  assume a: "AccessToken td \<noteq> []
            \<and> fst (RefreshOAuthToken s cfg td (snd (timeNow w))) \<noteq> Inr (AccessToken td)"
  show "fst (fst (GetTokenForServer s cfg w)) = AccessToken td \<longleftrightarrow> inWindow td w"
  proof (cases "inWindow td w")
    case True
    then show ?thesis
      using GetTokenForServer_in_window [OF assms True, of cfg] by simp
  next
    case False
    then show ?thesis
      using GetTokenForServer_outside [OF assms False, of cfg] a
      by (auto split: if_splits sum.splits)
  qed
qed


theorem GetTokenForServer_window_witness:
  "LoadTokens (tokenWorld (sampleToken 1000)) = Inr [''s'' \<mapsto> sampleToken 1000]
   \<and> inWindow (sampleToken 1000) (tokenWorld (sampleToken 1000))
   \<and> fst (GetTokenForServer ''s'' plainServer (tokenWorld (sampleToken 1000))) = (''tok'', None)
   \<and> LoadTokens (tokenWorld (sampleToken 120)) = Inr [''s'' \<mapsto> sampleToken 120]
   \<and> \<not> inWindow (sampleToken 120) (tokenWorld (sampleToken 120))
   \<and> fst (GetTokenForServer ''s'' plainServer (tokenWorld (sampleToken 120))) = ([], None)"
  using GetTokenForServer_window
          [of "tokenWorld (sampleToken 1000)" "[''s'' \<mapsto> sampleToken 1000]" "''s''"
              "sampleToken 1000" plainServer]
        GetTokenForServer_window
          [of "tokenWorld (sampleToken 120)" "[''s'' \<mapsto> sampleToken 120]" "''s''"
              "sampleToken 120" plainServer]
  by (simp add: LoadTokens_def tokenWorld_def sampleToken_def inWindow_def nowSeconds_def
        Unix_def RefreshOAuthToken_def plainServer_def timeNow_def)

lemma RefreshOAuthToken_no_url:
  "noTokenURL cfg \<Longrightarrow> RefreshOAuthToken s cfg td w = (Inl ''no token URL configured'', w)"
  by (auto simp: noTokenURL_def RefreshOAuthToken_def split: option.splits)

text \<open>
  Claim C10. For a server whose configuration has no \<open>oauth.token_url\<close>,
  \<open>RefreshOAuthToken\<close> always fails (and sends nothing); consequently, for a token record
  of that server that is past its expiry window, \<open>GetTokenForServer\<close> returns the empty
  string with a \<open>nil\<close> error, whether or not a refresh token is present.
\<close>

theorem refresh_without_token_url:
  assumes "noTokenURL cfg"
  shows "RefreshOAuthToken s cfg td w = (Inl ''no token URL configured'', w)
       \<and> (LoadTokens w = Inr tokens \<and> tokens s = Some rec \<and> \<not> inWindow rec w \<longrightarrow>
            GetTokenForServer s cfg w = (([], None), snd (timeNow w)))"
proof (intro conjI impI)
  show "RefreshOAuthToken s cfg td w = (Inl ''no token URL configured'', w)"
    using assms by (rule RefreshOAuthToken_no_url)
next
  assume a: "LoadTokens w = Inr tokens \<and> tokens s = Some rec \<and> \<not> inWindow rec w"
  then show "GetTokenForServer s cfg w = (([], None), snd (timeNow w))"
    using RefreshOAuthToken_no_url [OF assms, of s rec "snd (timeNow w)"]
    by (auto simp: GetTokenForServer_def inWindow_def nowSeconds_def timeNow_def
             split: prod.splits)
qed

theorem refresh_without_token_url_witness:
  "noTokenURL plainServer
   \<and> RefreshOAuthToken ''s'' plainServer (sampleToken 120) (tokenWorld (sampleToken 120))
       = (Inl ''no token URL configured'', tokenWorld (sampleToken 120))
   \<and> RefreshToken (sampleToken 120) \<noteq> []
   \<and> LoadTokens (tokenWorld (sampleToken 120)) = Inr [''s'' \<mapsto> sampleToken 120]
   \<and> \<not> inWindow (sampleToken 120) (tokenWorld (sampleToken 120))
   \<and> GetTokenForServer ''s'' plainServer (tokenWorld (sampleToken 120))
       = (([], None), snd (timeNow (tokenWorld (sampleToken 120))))"
  using refresh_without_token_url
          [of plainServer "''s''" "sampleToken 120" "tokenWorld (sampleToken 120)"
              "[''s'' \<mapsto> sampleToken 120]" "sampleToken 120"]
  by (simp add: noTokenURL_def plainServer_def LoadTokens_def tokenWorld_def sampleToken_def
        inWindow_def nowSeconds_def Unix_def)

section \<open>The daemon: cache, unknown servers, reload\<close>

lemma getTools_failure_cache:
  "fst (fst (getTools dec name d w)) = Inl err \<Longrightarrow>
   toolsCache (snd (fst (getTools dec name d w))) = toolsCache d"
  by (auto simp: getTools_def getClient_def Let_def
           split: prod.splits option.splits sum.splits if_splits)


lemma reloadClient_step:
  "reloadClient old (name, client) (d, cl) =
     (if keeps old (config d) name then (d, cl) else (evict name d, cl @ [name]))"
  by (simp add: reloadClient_def keeps_def Let_def split: option.splits)

lemma evict_config [simp]: "config (evict name d) = config d"
  by (simp add: evict_def)

lemma filter_delete_keys:
  assumes "\<not> K name"
  shows "filter (\<lambda>(k, v). k \<in> S \<longrightarrow> K k) (AList.delete name xs)
           = filter (\<lambda>(k, v). k \<in> insert name S \<longrightarrow> K k) xs"
  using assms by (induction xs) auto

lemma fold_reloadClient:
  "fold (reloadClient old) es (d, cl) =
     (d\<lparr>clients := filter (\<lambda>(k, v). k \<in> fst ` set es \<longrightarrow> keeps old (config d) k) (clients d),
        toolsCache := filter (\<lambda>(k, v). k \<in> fst ` set es \<longrightarrow> keeps old (config d) k) (toolsCache d)\<rparr>,
      cl @ map fst (filter (\<lambda>(n, c). \<not> keeps old (config d) n) es))"
proof (induction es arbitrary: d cl)
  case Nil
  then show ?case by simp
next
  case (Cons e es)
  obtain name client where e: "e = (name, client)" by (cases e)
  show ?case
  proof (cases "keeps old (config d) name")
    case True
    have "\<And>xs :: (string \<times> 'x) list.
            filter (\<lambda>(k, v). k \<in> fst ` set (e # es) \<longrightarrow> keeps old (config d) k) xs
              = filter (\<lambda>(k, v). k \<in> fst ` set es \<longrightarrow> keeps old (config d) k) xs"
      using True e by (auto intro!: filter_cong)
    then show ?thesis
      using True e Cons.IH [of d cl] by (simp add: reloadClient_step)
  next
    case False
    have img: "fst ` set (e # es) = insert name (fst ` set es)"
      using e by simp
    show ?thesis
      using False e Cons.IH [of "evict name d" "cl @ [name]"]
      unfolding img
      by (simp add: reloadClient_step)
         (simp add: evict_def
            filter_delete_keys [of "keeps old (config d)" name, OF False])
  qed
qed

lemma reloadConfig_loaded:
  assumes "LoadConfig w = Inr cfg"
  shows "reloadConfig d w =
           (None,
            d\<lparr>config := cfg,
              clients := filter (\<lambda>(k, v). keeps (config d) cfg k) (clients d),
              toolsCache := filter (\<lambda>(k, v). k \<in> fst ` set (clients d) \<longrightarrow> keeps (config d) cfg k)
                              (toolsCache d)\<rparr>,
            map fst (filter (\<lambda>(n, c). \<not> keeps (config d) cfg n) (clients d)))"
proof -
  have "filter (\<lambda>(k, v). k \<in> fst ` set (clients d) \<longrightarrow> keeps (config d) cfg k) (clients d)
          = filter (\<lambda>(k, v). keeps (config d) cfg k) (clients d)"
    by (rule filter_cong) force+
  then show ?thesis
    using assms by (simp add: reloadConfig_def fold_reloadClient Let_def)
qed

lemma map_of_list_all:
  "list_all (\<lambda>(k, v). P k) xs \<Longrightarrow> map_of xs k = Some v \<Longrightarrow> P k"
  by (induction xs) (auto split: if_splits)

lemma map_of_filter_key:
  "map_of (filter (\<lambda>(k, v). P k) xs) n = (if P n then map_of xs n else None)"
  by (induction xs) auto

lemma keeps_same:
  "map_of (Servers cfg) name \<noteq> None \<Longrightarrow> keeps cfg cfg name"
  by (auto simp: keeps_def)

lemma reloadConfig_unchanged:
  assumes "daemonInv d" and "LoadConfig w = Inr (config d)"
  shows "reloadConfig d w = (None, d, [])"
proof -
  have k: "\<And>k v. (k, v) \<in> set (clients d) \<Longrightarrow> keeps (config d) (config d) k"
    using assms(1) by (auto simp: daemonInv_def list_all_iff intro: keeps_same)
  have c: "filter (\<lambda>(k, v). keeps (config d) (config d) k) (clients d) = clients d"
    using k by (auto simp: filter_id_conv)
  have t: "filter (\<lambda>(k, v). k \<in> fst ` set (clients d) \<longrightarrow> keeps (config d) (config d) k)
             (toolsCache d) = toolsCache d"
    using k by (auto simp: filter_id_conv)
  have n: "filter (\<lambda>(n, c). \<not> keeps (config d) (config d) n) (clients d) = []"
    using k by (auto simp: filter_empty_conv)
  show ?thesis
    by (simp add: reloadConfig_loaded [OF assms(2)] c t n)
qed

lemma reloadTimes_unchanged:
  assumes "daemonInv d" and "LoadConfig w = Inr (config d)"
  shows "reloadTimes n d w = (d, [])"
  by (induction n) (simp_all add: reloadConfig_unchanged [OF assms])


lemma keysOf_Nil [simp]: "keysOf [] = {}"
  by (simp add: keysOf_def)

lemma keysOf_update [simp]: "keysOf (AList.update k v xs) = insert k (keysOf xs)"
  by (simp add: keysOf_def dom_update)

lemma keysOf_filter [simp]: "keysOf (filter (\<lambda>(k, v). P k) xs) = {k \<in> keysOf xs. P k}"
  by (force simp: keysOf_def)

lemma map_of_None_keysOf: "map_of xs k = None \<longleftrightarrow> k \<notin> keysOf xs"
  by (simp add: keysOf_def map_of_eq_None_iff)

lemma map_of_Some_keysOf: "map_of xs k = Some v \<Longrightarrow> k \<in> keysOf xs"
  using map_of_None_keysOf [of xs k] by auto

lemma daemonInv_iff:
  "daemonInv d \<longleftrightarrow>
     (\<forall>n. n \<in> keysOf (clients d) \<longrightarrow> n \<in> keysOf (Servers (config d)))
     \<and> keysOf (toolsCache d) \<subseteq> keysOf (clients d)"
  unfolding daemonInv_def list_all_iff keysOf_def
  by (force simp: map_of_eq_None_iff)


lemma NewMCPDaemon_inv: "NewMCPDaemon w = Inr d \<Longrightarrow> daemonInv d"
  by (auto simp: NewMCPDaemon_def daemonInv_def split: sum.splits)

lemma getClient_inv:
  assumes "daemonInv d"
  shows "daemonInv (snd (fst (getClient name d w)))"
  using assms
  by (auto simp: getClient_def daemonInv_iff Let_def
           split: option.splits prod.splits dest: map_of_Some_keysOf)

lemma getClient_config [simp]: "config (snd (fst (getClient name d w))) = config d"
  by (auto simp: getClient_def Let_def split: option.splits prod.splits)

lemma getClient_has_client:
  "fst (fst (getClient name d w)) = Inr c \<Longrightarrow>
   name \<in> keysOf (clients (snd (fst (getClient name d w))))"
  by (auto simp: getClient_def Let_def
           split: option.splits prod.splits dest: map_of_Some_keysOf)

lemma update_present_inv:
  assumes "daemonInv d" and "name \<in> keysOf (clients d)"
  shows "daemonInv (d\<lparr>clients := AList.update name c (clients d)\<rparr>)"
  using assms by (auto simp: daemonInv_iff)

lemma getTools_inv:
  assumes "daemonInv d"
  shows "daemonInv (snd (fst (getTools dec name d w)))"
proof (cases "freshTools name d w")
  case (Pair hit w0)
  show ?thesis
  proof (cases hit)
    case (Some tools)
    with Pair assms show ?thesis by (simp add: getTools_def)
  next
    case None
    obtain r d1 w1 where g: "getClient name d w0 = ((r, d1), w1)"
      by (metis prod.exhaust)
    have inv1: "daemonInv d1"
      using getClient_inv [OF assms, of name w0] g by simp
    show ?thesis
    proof (cases r)
      case (Inl e)
      with Pair None g inv1 show ?thesis by (simp add: getTools_def)
    next
      case (Inr client)
      have mem: "name \<in> keysOf (clients d1)"
        using getClient_has_client [of name d w0 client] g Inr by simp
      obtain res client1 w2 where l: "ListTools dec client w1 = ((res, client1), w2)"
        by (metis prod.exhaust)
      have inv2: "daemonInv (d1\<lparr>clients := AList.update name client1 (clients d1)\<rparr>)"
        by (rule update_present_inv [OF inv1 mem])
      show ?thesis
      proof (cases res)
        case (Inl err)
        with Pair None g Inr l inv2 show ?thesis by (simp add: getTools_def)
      next
        case (Inr tools)
        have "daemonInv (d1\<lparr>clients := AList.update name client1 (clients d1),
                 toolsCache := AList.update name ct (toolsCache d1)\<rparr>)" for ct
          using inv2 mem by (auto simp: daemonInv_iff)
        with Pair None g \<open>r = Inr client\<close> l Inr show ?thesis
          by (simp add: getTools_def Let_def split: prod.splits)
      qed
    qed
  qed
qed

lemma callTool_inv:
  assumes "daemonInv d"
  shows "daemonInv (snd (fst (callTool dec name tool args d w)))"
proof -
  obtain r d1 w1 where g: "getClient name d w = ((r, d1), w1)"
    by (metis prod.exhaust)
  have inv1: "daemonInv d1"
    using getClient_inv [OF assms, of name w] g by simp
  show ?thesis
  proof (cases r)
    case (Inl e)
    with g inv1 show ?thesis by (simp add: callTool_def)
  next
    case (Inr client)
    have mem: "name \<in> keysOf (clients d1)"
      using getClient_has_client [of name d w client] g Inr by simp
    show ?thesis
      using g Inr update_present_inv [OF inv1 mem]
      by (auto simp: callTool_def split: prod.splits)
  qed
qed

lemma reloadConfig_inv:
  assumes "daemonInv d"
  shows "daemonInv (fst (snd (reloadConfig d w)))"
proof (cases "LoadConfig w")
  case (Inl e)
  with assms show ?thesis by (simp add: reloadConfig_def)
next
  case (Inr cfg)
  have "keeps (config d) cfg k \<Longrightarrow> k \<in> keysOf (Servers cfg)" for k
    by (auto simp: keeps_def split: option.splits dest: map_of_Some_keysOf)
  moreover have "keysOf (filter (\<lambda>(k, v). k \<in> fst ` set (clients d) \<longrightarrow> keeps (config d) cfg k)
                   (toolsCache d))
                 = {k \<in> keysOf (toolsCache d). k \<in> keysOf (clients d) \<longrightarrow> keeps (config d) cfg k}"
    unfolding keysOf_def by force
  ultimately show ?thesis
    using assms unfolding reloadConfig_loaded [OF Inr] daemonInv_iff
    by auto
qed

lemma handleCommand_inv:
  assumes "daemonInv d"
  shows "daemonInv (snd (fst (handleCommand dec cmd d w)))"
proof -
  have r: "daemonInv d1" if "reloadConfig d w = (e, d1, cl)" for e d1 cl
    using reloadConfig_inv [OF assms, of w] that by simp
  have t: "daemonInv d1" if "getTools dec (Server cmd) d w = ((x, d1), w1)" for x d1 w1
    using getTools_inv [OF assms, of dec "Server cmd" w] that by simp
  have c: "daemonInv d1"
    if "callTool dec (Server cmd) (ToolName cmd) (Arguments cmd) d w = ((x, d1), w1)" for x d1 w1
    using callTool_inv [OF assms, of dec "Server cmd" "ToolName cmd" "Arguments cmd" w] that
    by simp
  have s: "daemonInv (d\<lparr>running := False, localManager := []\<rparr>)"
    using assms by (simp add: daemonInv_def)
  show ?thesis
    using assms r t c s
    by (auto simp: handleCommand_def split: prod.splits option.splits sum.splits failure.splits)
qed


text \<open>
  Claim C9. When \<open>getTools\<close> fails (client acquisition or \<open>ListTools\<close> returns an
  error, or panics), the tools cache is exactly what it was: no entry is added, and no
  entry, expired or not, is removed.
\<close>

theorem getTools_failure_keeps_cache:
  assumes "fst (fst (getTools dec name d w)) = Inl err"
  shows "toolsCache (snd (fst (getTools dec name d w))) = toolsCache d
         \<and> map_of (toolsCache (snd (fst (getTools dec name d w)))) name
             = map_of (toolsCache d) name"
  using getTools_failure_cache [OF assms] by simp

theorem getTools_failure_keeps_cache_witness:
  "fst (fst (getTools sampleDecoder ''s'' staleDaemon (tokenWorld (sampleToken 1000))))
     = Inl (Failed ''request failed: connection refused'')
   \<and> toolsCache (snd (fst (getTools sampleDecoder ''s'' staleDaemon
                              (tokenWorld (sampleToken 1000)))))
       = [(''s'', \<lparr>Tools = [Tool ''t1'' ''d'' None], Expires = 0\<rparr>)]"
proof -
  have f: "fst (fst (getTools sampleDecoder ''s'' staleDaemon (tokenWorld (sampleToken 1000))))
     = Inl (Failed ''request failed: connection refused'')"
    by (simp add: getTools_def freshTools_def staleDaemon_def tokenWorld_def timeNow_def
          getClient_def ListTools_def Initialize_def cachedSession_def plainServer_def
          NewMCPClient_def LoadSessions_def Request_def noReply_def Let_def)
  show ?thesis
    using getTools_failure_keeps_cache [OF f] f by (simp add: staleDaemon_def)
qed




text \<open>
  Claim C4. Applying \<open>reload\<close> any number of times while the configuration is unchanged
  leaves the daemon, and so its \<open>clients\<close> map, identical: no client is closed, evicted
  or reconstructed. And whatever the new configuration is, a client whose server spec is
  the same in the old and the new configuration is not touched: it stays in the map with
  its cache entry and is not closed.
\<close>

theorem reload_unchanged_config:
  assumes "daemonInv d" and "LoadConfig w = Inr cfg"
  shows "(cfg = config d \<longrightarrow> reloadTimes n d w = (d, []))
       \<and> (map_of (Servers cfg) name = map_of (Servers (config d)) name
            \<and> map_of (Servers cfg) name \<noteq> None \<longrightarrow>
          map_of (clients (fst (snd (reloadConfig d w)))) name = map_of (clients d) name
          \<and> map_of (toolsCache (fst (snd (reloadConfig d w)))) name
              = map_of (toolsCache d) name
          \<and> name \<notin> set (snd (snd (reloadConfig d w))))"
proof (intro conjI impI)
  assume "cfg = config d"
  then show "reloadTimes n d w = (d, [])"
    using assms by (simp add: reloadTimes_unchanged)
next
  assume a: "map_of (Servers cfg) name = map_of (Servers (config d)) name
            \<and> map_of (Servers cfg) name \<noteq> None"
  then have "map_of (Servers (config d)) name \<noteq> None"
    by metis
  then obtain sc where o: "map_of (Servers (config d)) name = Some sc"
    by blast
  with a have n: "map_of (Servers cfg) name = Some sc"
    by metis
  have k: "keeps (config d) cfg name"
    by (simp add: keeps_def n o)
  show "map_of (clients (fst (snd (reloadConfig d w)))) name = map_of (clients d) name"
    using k by (simp add: reloadConfig_loaded [OF assms(2)] map_of_filter_key)
  show "map_of (toolsCache (fst (snd (reloadConfig d w)))) name = map_of (toolsCache d) name"
    using k
    by (simp add: reloadConfig_loaded [OF assms(2)]
          map_of_filter_key [of "\<lambda>k. k \<in> fst ` set (clients d) \<longrightarrow> keeps (config d) cfg k"])
  show "name \<notin> set (snd (snd (reloadConfig d w)))"
    using k by (auto simp: reloadConfig_loaded [OF assms(2)])
qed

theorem reload_unchanged_config_witness:
  "daemonInv staleDaemon
   \<and> LoadConfig (configWorld (config staleDaemon)) = Inr (config staleDaemon)
   \<and> reloadTimes 3 staleDaemon (configWorld (config staleDaemon)) = (staleDaemon, [])
   \<and> map_of (clients (fst (snd (reloadConfig staleDaemon (configWorld (config staleDaemon))))))
        ''s'' = Some (NewMCPClient ''s'' plainServer)"
  using reload_unchanged_config
          [of staleDaemon "configWorld (config staleDaemon)" "config staleDaemon" 3 "''s''"]
  by (simp add: daemonInv_def staleDaemon_def LoadConfig_def configWorld_def)

section \<open>The client: initialize and tools/list\<close>




lemma SaveSessions_fields [simp]:
  "sent (SaveSessions m w) = sent w" "drawn (SaveSessions m w) = drawn w"
  by (simp_all add: SaveSessions_def)






text \<open>
  Claim C6 as stated fails: when the \<open>result\<close> object of the \<open>tools/list\<close> response
  is present (here the empty object) and lacks the \<open>tools\<close> key, the daemon answers
  \<open>MCP_ERROR\<close> with the message \<open>no tools in response\<close>, not
  \<open>unexpected response format\<close>.
\<close>

theorem missing_tools_key_counterexample:
  "fst (fst (handleCommand emptyResultDecoder (toolsCommand ''s'') staleDaemon
               (replyWorld [] emptyResultBody)))
     = Some (errResponse ErrMCPError ''no tools in response'')
   \<and> ''no tools in response'' \<noteq> ''unexpected response format''"
  by (simp add: handleCommand_def toolsCommand_def getTools_def freshTools_def
        staleDaemon_def timeNow_def getClient_def ListTools_def Initialize_def
        cachedSession_def plainServer_def NewMCPClient_def LoadSessions_def Request_def
        replyWorld_def tokenWorld_def Let_def HasPrefix_def unmarshalPtr_def isJSONNull_def
        isJSONSpace_def emptyResultBody_def emptyResultDecoder_def)

lemma ListTools_result:
  assumes "Initialize dec c w = ((None, c1), w1)"
    and "Request dec c1 ''tools/list'' ANil w1 = ((Inr (Some resp), sid), w2)"
    and "Error resp = None"
  shows "ListTools dec c w =
           (((case Result resp of
                None \<Rightarrow> Inl (Failed ''unexpected response format'')
              | Some result \<Rightarrow>
                  (case result ''tools'' of
                     None \<Rightarrow> Inl (Failed ''no tools in response'')
                   | Some toolsRaw \<Rightarrow>
                       (case convertTools toolsRaw of
                          Inl e \<Rightarrow> Inl (Failed e)
                        | Inr tools \<Rightarrow> Inr tools))), c1), w2)"
  using assms by (simp add: ListTools_def split: option.splits sum.splits)

lemma tools_command_failure:
  assumes "Action cmd = ''tools''" and "Server cmd \<noteq> []"
    and "freshTools (Server cmd) d w = (None, w0)"
    and "getClient (Server cmd) d w0 = ((Inr c, d1), w1)"
    and "ListTools dec c w1 = ((Inl (Failed msg), c1), w2)"
  shows "fst (fst (handleCommand dec cmd d w)) = Some (errResponse ErrMCPError msg)"
  using assms by (simp add: handleCommand_def getTools_def)

text \<open>
  Claim C6, amended. For every \<open>tools/list\<close> response without a JSON-RPC error whose
  \<open>result\<close> object is present and lacks the \<open>tools\<close> key, \<open>ListTools\<close> fails and the
  daemon surfaces an \<open>MCP_ERROR\<close> whose message is \<open>no tools in response\<close>; the
  message is \<open>unexpected response format\<close> when the response has no \<open>result\<close> at all.
\<close>

theorem missing_tools_key_MCP_ERROR:
  assumes "Action cmd = ''tools''" and "Server cmd \<noteq> []"
    and "freshTools (Server cmd) d w = (None, w0)"
    and "getClient (Server cmd) d w0 = ((Inr c, d1), w1)"
    and "Initialize dec c w1 = ((None, c1), w2)"
    and "Request dec c1 ''tools/list'' ANil w2 = ((Inr (Some resp), sid), w3)"
    and "Error resp = None"
  shows "(Result resp = Some result \<and> result ''tools'' = None \<longrightarrow>
            fst (fst (ListTools dec c w1)) = Inl (Failed ''no tools in response'')
            \<and> fst (fst (handleCommand dec cmd d w))
                = Some (errResponse ErrMCPError ''no tools in response''))
       \<and> (Result resp = None \<longrightarrow>
            fst (fst (ListTools dec c w1)) = Inl (Failed ''unexpected response format'')
            \<and> fst (fst (handleCommand dec cmd d w))
                = Some (errResponse ErrMCPError ''unexpected response format''))"
proof (intro conjI impI)
  assume a: "Result resp = Some result \<and> result ''tools'' = None"
  have l: "ListTools dec c w1 = ((Inl (Failed ''no tools in response''), c1), w3)"
    using ListTools_result [OF assms(5,6,7)] a by simp
  then show "fst (fst (ListTools dec c w1)) = Inl (Failed ''no tools in response'')"
    by simp
  show "fst (fst (handleCommand dec cmd d w))
          = Some (errResponse ErrMCPError ''no tools in response'')"
    by (rule tools_command_failure [OF assms(1,2,3,4) l])
next
  assume a: "Result resp = None"
  have l: "ListTools dec c w1 = ((Inl (Failed ''unexpected response format''), c1), w3)"
    using ListTools_result [OF assms(5,6,7)] a by simp
  then show "fst (fst (ListTools dec c w1)) = Inl (Failed ''unexpected response format'')"
    by simp
  show "fst (fst (handleCommand dec cmd d w))
          = Some (errResponse ErrMCPError ''unexpected response format'')"
    by (rule tools_command_failure [OF assms(1,2,3,4) l])
qed


lemma replyWorld_run:
  assumes "dec body = Inr resp" and "\<not> isJSONNull body" and "Error resp = None"
  shows "freshTools ''s'' staleDaemon (replyWorld [] body)
           = (None, (replyWorld [] body)\<lparr>ticks := 1\<rparr>)"
    and "getClient ''s'' staleDaemon ((replyWorld [] body)\<lparr>ticks := 1\<rparr>)
           = ((Inr (NewMCPClient ''s'' plainServer), staleDaemon),
              (replyWorld [] body)\<lparr>ticks := 1\<rparr>)"
    and "Initialize dec (NewMCPClient ''s'' plainServer) ((replyWorld [] body)\<lparr>ticks := 1\<rparr>)
           = ((None, NewMCPClient ''s'' plainServer),
              snd (Initialize dec (NewMCPClient ''s'' plainServer)
                     ((replyWorld [] body)\<lparr>ticks := 1\<rparr>)))"
    and "Request dec (NewMCPClient ''s'' plainServer) ''tools/list'' ANil
           (snd (Initialize dec (NewMCPClient ''s'' plainServer)
                   ((replyWorld [] body)\<lparr>ticks := 1\<rparr>)))
           = ((Inr (Some resp), []),
              snd (Request dec (NewMCPClient ''s'' plainServer) ''tools/list'' ANil
                     (snd (Initialize dec (NewMCPClient ''s'' plainServer)
                             ((replyWorld [] body)\<lparr>ticks := 1\<rparr>)))))"
  using assms
  by (simp_all add: freshTools_def staleDaemon_def timeNow_def getClient_def Initialize_def
        cachedSession_def plainServer_def NewMCPClient_def LoadSessions_def Request_def
        replyWorld_def tokenWorld_def Let_def HasPrefix_def unmarshalPtr_def)

theorem missing_tools_key_MCP_ERROR_witness:
  "Result \<lparr>JSONRPC = [], ID = [], Result = Some Map.empty, Error = None\<rparr> = Some Map.empty
   \<and> Map.empty ''tools'' = (None :: anyval option)
   \<and> fst (fst (handleCommand emptyResultDecoder (toolsCommand ''s'') staleDaemon
                  (replyWorld [] emptyResultBody)))
       = Some (errResponse ErrMCPError ''no tools in response'')
   \<and> Result \<lparr>JSONRPC = [], ID = [], Result = None, Error = None\<rparr> = None
   \<and> fst (fst (handleCommand sampleDecoder (toolsCommand ''s'') staleDaemon
                  (replyWorld [] ''{}'')))
       = Some (errResponse ErrMCPError ''unexpected response format'')"
proof -
  let ?r1 = "\<lparr>JSONRPC = [], ID = [], Result = Some Map.empty, Error = None\<rparr>"
  let ?r2 = "\<lparr>JSONRPC = [], ID = [], Result = None, Error = None\<rparr>"
  have d1: "emptyResultDecoder emptyResultBody = Inr ?r1"
    by (simp add: emptyResultDecoder_def)
  have n1: "\<not> isJSONNull emptyResultBody"
    by (simp add: isJSONNull_def isJSONSpace_def emptyResultBody_def)
  have d2: "sampleDecoder ''{}'' = Inr ?r2"
    by (simp add: sampleDecoder_def)
  have n2: "\<not> isJSONNull ''{}''"
    by (simp add: isJSONNull_def isJSONSpace_def)
  have c: "Action (toolsCommand ''s'') = ''tools''" "Server (toolsCommand ''s'') = ''s''"
    by (simp_all add: toolsCommand_def)
  have one: "fst (fst (handleCommand emptyResultDecoder (toolsCommand ''s'') staleDaemon
                  (replyWorld [] emptyResultBody)))
       = Some (errResponse ErrMCPError ''no tools in response'')"
    using missing_tools_key_MCP_ERROR
            [of "toolsCommand ''s''" staleDaemon "replyWorld [] emptyResultBody" _ _ _ _
                emptyResultDecoder _ _ ?r1 _ _ Map.empty]
          replyWorld_run [of emptyResultDecoder emptyResultBody ?r1] d1 n1 c
    by simp
  have two: "fst (fst (handleCommand sampleDecoder (toolsCommand ''s'') staleDaemon
                  (replyWorld [] ''{}'')))
       = Some (errResponse ErrMCPError ''unexpected response format'')"
    using missing_tools_key_MCP_ERROR
            [of "toolsCommand ''s''" staleDaemon "replyWorld [] ''{}''" _ _ _ _
                sampleDecoder _ _ ?r2]
          replyWorld_run [of sampleDecoder "''{}''" ?r2] d2 n2 c
    by simp
  show ?thesis
    using one two by simp
qed

section \<open>The OAuth flow: state check\<close>





section \<open>JSON round trips of the wire types\<close>






















end
